theory Spec2Isabelle
  imports Complex_Main
begin

section \<open>SolarIQ: the production estimator of newproj.py\<close>

text \<open>
  Numbers. Python's \<open>float\<close> and the \<open>int\<close> values the widgets return are both
  modelled as \<^typ>\<open>real\<close>: arithmetic is exact, \<open>np.sin\<close> and \<open>np.exp\<close> are the
  real functions \<^const>\<open>sin\<close> and \<^const>\<open>exp\<close>. The rounding of IEEE doubles is
  not part of this model: a statement about it is about the exact value of the formula
  the code evaluates. The one property that rounding decides, the strict increase of the
  tilt factor, is settled on a second model of that line, in double precision.
\<close>

subsection \<open>numpy and builtins\<close>

definition radians :: "real \<Rightarrow> real" where
  \<comment> \<open>\<open>np.radians\<close>\<close>
  "radians d = d * pi / 180"

definition arange :: "nat \<Rightarrow> int list" where
  \<comment> \<open>\<open>np.arange(n)\<close>: the integers \<open>0, ..., n - 1\<close>\<close>
  "arange n = map int [0..<n]"

definition py_sum :: "real list \<Rightarrow> real" where
  \<comment> \<open>the builtin \<open>sum\<close>: starts at 0 and adds from the left\<close>
  "py_sum xs = foldl (+) 0 xs"

subsection \<open>class SolarCellCalculator\<close>

record SolarCellCalculator =
  efficiency :: real
  area_m2 :: real
  tilt_angle :: real

record production =
  hourly_production :: "real list"
  total_production :: real

definition daily_irradiance_wh :: "real \<Rightarrow> real" where
  "daily_irradiance_wh daily_irradiance_kwh = daily_irradiance_kwh * 1000"

definition temp_factor :: "real \<Rightarrow> real" where
  "temp_factor temperature_C = 1 - 0.004 * max 0 (temperature_C - 25)"

definition tilt_factor :: "real \<Rightarrow> real" where
  "tilt_factor tilt = sin (radians tilt) * 0.5 + 0.5"

definition gauss :: "int \<Rightarrow> real" where
  \<comment> \<open>one entry of \<open>np.exp(-0.5 * ((np.arange(24) - 12)/4)**2)\<close>\<close>
  "gauss h = exp (- 0.5 * (real_of_int (h - 12) / 4)\<^sup>2)"

definition profile_raw :: "real list" where
  "profile_raw = map gauss (arange 24)"

definition profile :: "real list" where
  \<comment> \<open>\<open>profile /= profile.sum()\<close>\<close>
  "profile = map (\<lambda>w. w / sum_list profile_raw) profile_raw"

definition hourly_irradiance :: "real \<Rightarrow> real list" where
  "hourly_irradiance daily_irradiance_kwh =
     map (\<lambda>p. daily_irradiance_wh daily_irradiance_kwh * p) profile"

definition calculate_daily_production :: "SolarCellCalculator \<Rightarrow> real \<Rightarrow> real \<Rightarrow> production" where
  "calculate_daily_production self daily_irradiance_kwh temperature_C =
     (let hourly =
            map (\<lambda>irr. irr * area_m2 self * efficiency self * temp_factor temperature_C
                          * tilt_factor (tilt_angle self))
                (hourly_irradiance daily_irradiance_kwh)
      in \<lparr> hourly_production = hourly, total_production = py_sum hourly \<rparr>)"

subsection \<open>The tilt factor in double precision\<close>








subsection \<open>The sizing computation of tab2\<close>

text \<open>
  The messages of \<open>st.error\<close>, each followed by \<open>st.stop()\<close>, which ends the run of
  the script: the computation returns the message instead of a value.
\<close>

record coords =
  lat :: real
  lon :: real

datatype st_stop =
    No_matching_city
  | Failed_to_retrieve_irradiance
  | Irradiance_returned_0

definition annual_kwh :: "production \<Rightarrow> real" where
  \<comment> \<open>\<open>result['total_production'] / 1000 * 365\<close>\<close>
  "annual_kwh result = total_production result / 1000 * 365"

definition target_annual_kwh :: "real \<Rightarrow> real \<Rightarrow> real" where
  "target_annual_kwh monthly_usage offset_target = monthly_usage * 12 * (offset_target / 100)"

definition base_output_per_m2 :: "real \<Rightarrow> real \<Rightarrow> real \<Rightarrow> real" where
  "base_output_per_m2 tilt ghi_daily temperature =
     annual_kwh (calculate_daily_production
                   \<lparr>efficiency = 1, area_m2 = 1, tilt_angle = tilt\<rparr> ghi_daily temperature)"

definition required_area :: "real \<Rightarrow> real \<Rightarrow> st_stop + real" where
  \<comment> \<open>the guard \<open>if base_output_per_m2 == 0\<close> and the division after it\<close>
  "required_area target base =
     (if base = 0 then Inl Irradiance_returned_0 else Inr (target / base))"

definition sizing :: "real \<Rightarrow> real \<Rightarrow> real \<Rightarrow> real \<Rightarrow> real \<Rightarrow> st_stop + real" where
  "sizing ghi_daily temperature tilt monthly_usage offset_target =
     required_area (target_annual_kwh monthly_usage offset_target)
                   (base_output_per_m2 tilt ghi_daily temperature)"

definition tab2 ::
  "coords option \<Rightarrow> real option \<Rightarrow> real \<Rightarrow> real \<Rightarrow> real \<Rightarrow> real \<Rightarrow> st_stop + real" where
  \<comment> \<open>the stops of tab2 in their order, given what the three lookups returned\<close>
  "tab2 coords ghi_daily temperature tilt monthly_usage offset_target =
     (case coords of
        None \<Rightarrow> Inl No_matching_city
      | Some c \<Rightarrow>
          (case ghi_daily of
             None \<Rightarrow> Inl Failed_to_retrieve_irradiance
           | Some ghi \<Rightarrow> sizing ghi temperature tilt monthly_usage offset_target))"

subsection \<open>The data sources\<close>

text \<open>
  What \<open>response.json()\<close> returns, and the exceptions of the operations the fetch
  functions apply to it. A JSON number without fraction or exponent is a Python
  \<open>int\<close> (\<open>JInt\<close>), any other a float (\<open>JNum\<close>, a \<^typ>\<open>real\<close>); the
  floats that are no real number (\<open>NaN\<close>, an infinity) are not modelled.
\<close>

datatype json =
    JNull
  | JBool bool
  | JInt int
  | JNum real
  | JStr string
  | JArr "json list"
  | JObj "(string \<times> json) list"

datatype py_exception =
    TypeError
  | KeyError
  | IndexError
  | ValueError
  | OverflowError
  | JSONDecodeError
  | RequestException

record response =
  status_code :: int
  body :: "json option"  \<comment> \<open>\<open>None\<close>: the body is not JSON, \<open>response.json()\<close> raises\<close>

text \<open>
  The network is a parameter: what \<open>requests.get\<close> returns (or raises) for each of the
  three services, and how \<open>float\<close> reads a string. The decorator \<open>st.cache_data\<close>
  stores the value a function returned for an argument and lets an exception through, so
  in a fixed world it changes no result and is left out.
\<close>

record world =
  nominatim :: "string \<Rightarrow> py_exception + response"
  solar_resource :: "coords \<Rightarrow> py_exception + response"
  forecast :: "coords \<Rightarrow> py_exception + response"
  str_to_float :: "string \<Rightarrow> real option"

definition bind_exc :: "'e + 'a \<Rightarrow> ('a \<Rightarrow> 'e + 'b) \<Rightarrow> 'e + 'b" where
  \<comment> \<open>an exception ends the evaluation of the rest of the expression\<close>
  "bind_exc m f = (case m of Inl e \<Rightarrow> Inl e | Inr x \<Rightarrow> f x)"

fun getitem_str :: "json \<Rightarrow> string \<Rightarrow> py_exception + json" where
  \<comment> \<open>\<open>v[k]\<close> for a string \<open>k\<close>; of a repeated key, \<open>json\<close> keeps the last value\<close>
  "getitem_str (JObj kvs) k =
     (case map_of (rev kvs) k of None \<Rightarrow> Inl KeyError | Some v \<Rightarrow> Inr v)"
| "getitem_str v k = Inl TypeError"

fun getitem_0 :: "json \<Rightarrow> py_exception + json" where
  \<comment> \<open>\<open>v[0]\<close>\<close>
  "getitem_0 (JArr xs) = (case xs of [] \<Rightarrow> Inl IndexError | x # _ \<Rightarrow> Inr x)"
| "getitem_0 (JStr s) = (case s of [] \<Rightarrow> Inl IndexError | c # _ \<Rightarrow> Inr (JStr [c]))"
| "getitem_0 (JObj kvs) = Inl KeyError"
| "getitem_0 v = Inl TypeError"

fun py_float :: "world \<Rightarrow> json \<Rightarrow> py_exception + real" where
  \<comment> \<open>the builtin \<open>float\<close>; an \<open>int\<close> that rounds beyond the largest double raises\<close>
  "py_float w (JNum r) = Inr r"
| "py_float w (JInt n) =
     (if 2 ^ 1024 - 2 ^ 970 \<le> \<bar>n\<bar> then Inl OverflowError else Inr (of_int n))"
| "py_float w (JBool b) = Inr (if b then 1 else 0)"
| "py_float w (JStr s) = (case str_to_float w s of None \<Rightarrow> Inl ValueError | Some r \<Rightarrow> Inr r)"
| "py_float w v = Inl TypeError"

fun truthy :: "json \<Rightarrow> bool" where
  \<comment> \<open>\<open>if data:\<close>\<close>
  "truthy JNull = False"
| "truthy (JBool b) = b"
| "truthy (JInt n) = (n \<noteq> 0)"
| "truthy (JNum r) = (r \<noteq> 0)"
| "truthy (JStr s) = (s \<noteq> [])"
| "truthy (JArr xs) = (xs \<noteq> [])"
| "truthy (JObj kvs) = (kvs \<noteq> [])"

definition first_coords :: "world \<Rightarrow> json \<Rightarrow> py_exception + coords" where
  \<comment> \<open>\<open>{"lat": float(data[0]["lat"]), "lon": float(data[0]["lon"])}\<close>\<close>
  "first_coords w data =
     bind_exc (bind_exc (bind_exc (getitem_0 data) (\<lambda>d. getitem_str d ''lat'')) (py_float w))
       (\<lambda>la. bind_exc
                (bind_exc (bind_exc (getitem_0 data) (\<lambda>d. getitem_str d ''lon'')) (py_float w))
                (\<lambda>lo. Inr \<lparr>lat = la, lon = lo\<rparr>))"

definition get_coordinates_from_city :: "world \<Rightarrow> string \<Rightarrow> coords option" where
  \<comment> \<open>the whole body is inside \<open>try\<close>; \<open>except Exception\<close> returns \<open>None\<close>\<close>
  "get_coordinates_from_city w city_name =
     (case nominatim w (city_name @ '', USA'') of
        Inl e \<Rightarrow> None
      | Inr r \<Rightarrow>
          if 400 \<le> status_code r \<and> status_code r < 600 then None
          else (case body r of
                  None \<Rightarrow> None
                | Some data \<Rightarrow>
                    if truthy data
                    then (case first_coords w data of Inl e \<Rightarrow> None | Inr c \<Rightarrow> Some c)
                    else None))"

fun py_value :: "json \<Rightarrow> json option" where
  \<comment> \<open>JSON \<open>null\<close> is Python's \<open>None\<close>\<close>
  "py_value JNull = None"
| "py_value v = Some v"

definition avg_ghi_annual :: "json \<Rightarrow> py_exception + json" where
  \<comment> \<open>\<open>data["outputs"]["avg_ghi"]["annual"]\<close>\<close>
  "avg_ghi_annual data =
     bind_exc (bind_exc (getitem_str data ''outputs'') (\<lambda>a. getitem_str a ''avg_ghi''))
       (\<lambda>b. getitem_str b ''annual'')"

definition fetch_daily_irradiance :: "world \<Rightarrow> string \<Rightarrow> py_exception + json option" where
  "fetch_daily_irradiance w location =
     (case get_coordinates_from_city w location of
        None \<Rightarrow> Inr None
      | Some c \<Rightarrow>
          (case solar_resource w c of
             Inl e \<Rightarrow> Inl e
           | Inr r \<Rightarrow>
               if status_code r = 200
               then (case body r of
                       None \<Rightarrow> Inr None
                     | Some data \<Rightarrow>
                         (case avg_ghi_annual data of
                            Inl e \<Rightarrow> Inr None
                          | Inr ghi \<Rightarrow> Inr (py_value ghi)))
               else Inr None))"

definition hourly_temperature :: "world \<Rightarrow> json \<Rightarrow> py_exception + real" where
  \<comment> \<open>\<open>float(data["timelines"]["hourly"][0]["values"]["temperature"])\<close>\<close>
  "hourly_temperature w data =
     bind_exc
       (bind_exc
          (bind_exc
             (bind_exc (bind_exc (getitem_str data ''timelines'') (\<lambda>a. getitem_str a ''hourly''))
                getitem_0)
             (\<lambda>c. getitem_str c ''values''))
          (\<lambda>d. getitem_str d ''temperature''))
       (py_float w)"

definition fetch_tomorrow_temperature :: "world \<Rightarrow> string \<Rightarrow> py_exception + real" where
  \<comment> \<open>\<open>coords['lat']\<close> is evaluated first, with no check of \<open>coords\<close>;
      \<open>response.json()\<close> stands before the \<open>try\<close>\<close>
  "fetch_tomorrow_temperature w location =
     (case get_coordinates_from_city w location of
        None \<Rightarrow> Inl TypeError
      | Some c \<Rightarrow>
          (case forecast w c of
             Inl e \<Rightarrow> Inl e
           | Inr r \<Rightarrow>
               if status_code r = 200
               then (case body r of
                       None \<Rightarrow> Inl JSONDecodeError
                     | Some data \<Rightarrow>
                         (case hourly_temperature w data of
                            Inl e \<Rightarrow> Inr 25
                          | Inr t \<Rightarrow> Inr t))
               else Inr 25))"

section \<open>Basic facts\<close>

lemma py_sum_sum_list: "py_sum xs = sum_list xs"
proof -
  have "foldl (+) a xs = a + sum_list xs" for a :: real
    by (induction xs arbitrary: a) (simp_all add: add.assoc)
  from this [of 0] show ?thesis by (simp add: py_sum_def)
qed

lemma gauss_pos: "0 < gauss h"
  by (simp add: gauss_def)

lemma gauss_le_1: "gauss h \<le> 1"
  by (simp add: gauss_def)

lemma gauss_12: "gauss 12 = 1"
  by (simp add: gauss_def)

lemma length_profile_raw: "length profile_raw = 24"
  by (simp add: profile_raw_def arange_def)

lemma length_profile: "length profile = 24"
  by (simp add: profile_def length_profile_raw)

lemma profile_raw_nth: "i < 24 \<Longrightarrow> profile_raw ! i = gauss (int i)"
  by (simp add: profile_raw_def arange_def)

lemma sum_map_pos:
  fixes f :: "'a \<Rightarrow> real"
  assumes "xs \<noteq> []" and "\<And>x. 0 < f x"
  shows "0 < sum_list (map f xs)"
  using assms(1)
proof (induction xs)
  case Nil
  then show ?case by simp
next
  case (Cons x xs)
  have "0 \<le> sum_list (map f xs)"
    by (rule sum_list_nonneg) (auto intro: less_imp_le assms(2))
  with assms(2) [of x] show ?case by simp
qed

lemma profile_raw_sum_pos: "0 < sum_list profile_raw"
  unfolding profile_raw_def
  by (rule sum_map_pos) (simp_all add: arange_def gauss_pos)

lemma sum_list_div:
  fixes xs :: "real list"
  shows "sum_list (map (\<lambda>w. w / s) xs) = sum_list xs / s"
  by (induction xs) (simp_all add: add_divide_distrib)

lemma profile_sum: "sum_list profile = 1"
  using profile_raw_sum_pos by (simp add: profile_def sum_list_div)

lemma profile_nth: "i < 24 \<Longrightarrow> profile ! i = gauss (int i) / sum_list profile_raw"
  by (simp add: profile_def length_profile_raw profile_raw_nth)

lemma length_hourly:
  "length (hourly_production (calculate_daily_production self k t)) = 24"
  by (simp add: calculate_daily_production_def Let_def hourly_irradiance_def length_profile)

lemma hourly_nth:
  "i < 24 \<Longrightarrow>
   hourly_production (calculate_daily_production self k t) ! i =
     daily_irradiance_wh k * profile ! i * area_m2 self * efficiency self * temp_factor t
       * tilt_factor (tilt_angle self)"
  by (simp add: calculate_daily_production_def Let_def hourly_irradiance_def length_profile)

lemma sum_list_scale:
  fixes xs :: "real list"
  shows "sum_list (map (\<lambda>p. a * p * b * c * d * e) xs) = a * sum_list xs * b * c * d * e"
  by (induction xs) (simp_all add: algebra_simps)

lemma total_closed_form:
  "total_production (calculate_daily_production self k t) =
     daily_irradiance_wh k * area_m2 self * efficiency self * temp_factor t
       * tilt_factor (tilt_angle self)"
proof -
  have "total_production (calculate_daily_production self k t) =
        sum_list (map (\<lambda>p. daily_irradiance_wh k * p * area_m2 self * efficiency self
                          * temp_factor t * tilt_factor (tilt_angle self)) profile)"
    by (simp add: calculate_daily_production_def Let_def hourly_irradiance_def
        py_sum_sum_list comp_def)
  also have "\<dots> = daily_irradiance_wh k * sum_list profile * area_m2 self * efficiency self
                      * temp_factor t * tilt_factor (tilt_angle self)"
    by (rule sum_list_scale)
  finally show ?thesis by (simp add: profile_sum)
qed

lemma temp_factor_cold: "t \<le> 25 \<Longrightarrow> temp_factor t = 1"
  by (simp add: temp_factor_def max_def)

lemma temp_factor_antimono: "t1 \<le> t2 \<Longrightarrow> temp_factor t2 \<le> temp_factor t1"
  by (simp add: temp_factor_def max_def)

lemma temp_factor_nonneg_iff: "0 \<le> temp_factor t \<longleftrightarrow> t \<le> 275"
  by (simp add: temp_factor_def max_def)

lemma radians_30: "radians 30 = pi / 6"
  by (simp add: radians_def)

lemma tilt_factor_30: "tilt_factor 30 = 0.75"
  by (simp add: tilt_factor_def radians_30 sin_30)

lemma tilt_factor_0: "tilt_factor 0 = 0.5"
  by (simp add: tilt_factor_def radians_def)

lemma tilt_factor_90: "tilt_factor 90 = 1"
  by (simp add: tilt_factor_def radians_def)

lemma tilt_factor_nonneg: "0 \<le> tilt_factor d"
proof -
  have "- 1 \<le> sin (radians d)" by simp
  then show ?thesis unfolding tilt_factor_def by linarith
qed

lemma tilt_factor_strict_mono:
  assumes "0 \<le> a" "a < b" "b \<le> 90"
  shows "tilt_factor a < tilt_factor b"
proof -
  have "sin (radians a) < sin (radians b)"
  proof (rule sin_monotone_2pi)
    have "0 \<le> radians a"
      using assms(1) pi_ge_zero by (simp add: radians_def)
    with pi_ge_zero show "- (pi / 2) \<le> radians a"
      by linarith
    show "radians a < radians b"
      using assms(2) pi_gt_zero by (simp add: radians_def)
    show "radians b \<le> pi / 2"
      using assms(3) pi_ge_zero by (simp add: radians_def)
  qed
  then show ?thesis by (simp add: tilt_factor_def)
qed


lemma hourly_nth_gauss:
  "i < 24 \<Longrightarrow>
   hourly_production (calculate_daily_production self k t) ! i =
     gauss (int i) * (daily_irradiance_wh k * area_m2 self * efficiency self * temp_factor t
       * tilt_factor (tilt_angle self) / sum_list profile_raw)"
  by (simp add: hourly_nth profile_nth)

lemma gauss_sym: "gauss (12 - k) = gauss (12 + k)"
proof -
  have "(real_of_int (12 - k - 12))\<^sup>2 = (real_of_int (12 + k - 12))\<^sup>2"
    by (simp add: power2_eq_square)
  then show ?thesis
    by (simp add: gauss_def power_divide)
qed

lemma annual_closed_form:
  "annual_kwh (calculate_daily_production self k t) =
     daily_irradiance_wh k * area_m2 self * efficiency self * temp_factor t
       * tilt_factor (tilt_angle self) / 1000 * 365"
  by (simp add: annual_kwh_def total_closed_form)

lemma base_output_30_5_25: "base_output_per_m2 30 5 25 = 1368.75"
  by (simp add: base_output_per_m2_def annual_closed_form daily_irradiance_wh_def
      temp_factor_cold tilt_factor_30)

lemma tab2_stops:
  "tab2 None g temp tilt monthly offset = Inl No_matching_city"
  "tab2 (Some c) None temp tilt monthly offset = Inl Failed_to_retrieve_irradiance"
  "tab2 (Some c) (Some ghi) temp tilt monthly offset = sizing ghi temp tilt monthly offset"
  by (simp_all add: tab2_def)

lemma base_output_zero_irradiance: "base_output_per_m2 tilt 0 temp = 0"
  by (simp add: base_output_per_m2_def annual_closed_form daily_irradiance_wh_def)

subsection \<open>Rounding to a double\<close>





lemma ulp_pos: "0 < 2 powr (of_int (e - 52) :: real)"
  by simp

































section \<open>The claims\<close>

subsection \<open>The estimator\<close>

text \<open>
  C1. For \<open>dailyIrradianceKwhPerM2 = 5.0\<close>, \<open>ambientTemperatureC = 25\<close>,
  \<open>efficiency = 0.20\<close>, \<open>areaM2 = 2.0\<close> and \<open>tiltDegrees = 30\<close>, the total production
  is 1500 Wh: the temperature factor is 1, the tilt factor is 0.75, the irradiance is
  5000 Wh and the normalised weights sum to 1. In exact arithmetic the total is 1500
  itself, so it lies within any tolerance of 1500.
\<close>

theorem concrete_scenario:
  "total_production
     (calculate_daily_production \<lparr>efficiency = 0.20, area_m2 = 2.0, tilt_angle = 30\<rparr> 5.0 25) = 1500
   \<and> temp_factor 25 = 1 \<and> tilt_factor 30 = 0.75 \<and> daily_irradiance_wh 5.0 = 5000
   \<and> sum_list profile = 1"
  by (simp add: total_closed_form temp_factor_cold tilt_factor_30 daily_irradiance_wh_def
      profile_sum)

text \<open>
  C2. For every panel and every environmental input the hourly list has exactly 24
  entries, the total is the sum of these entries, and the 24 weights the entries are
  scaled from sum to 1.
\<close>

theorem hourly_length_and_total:
  "length (hourly_production (calculate_daily_production self k t)) = 24
   \<and> total_production (calculate_daily_production self k t)
       = sum_list (hourly_production (calculate_daily_production self k t))
   \<and> sum_list profile = 1"
  by (simp add: length_hourly profile_sum)
     (simp add: calculate_daily_production_def Let_def py_sum_sum_list)

text \<open>
  C3, as amended. For a valid panel (efficiency in (0, 1], positive area, tilt in
  [0, 90]), a non-negative daily irradiance and an ambient temperature of at most
  275 degrees Celsius, each of the 24 hourly entries is non-negative. The bound on the
  temperature is what keeps the temperature factor \<open>1 - 0.004 * max(0, T - 25)\<close>
  from turning negative.
\<close>

theorem hourly_nonneg:
  assumes "0 < efficiency self" "efficiency self \<le> 1" "0 < area_m2 self"
    and "0 \<le> tilt_angle self" "tilt_angle self \<le> 90"
    and "0 \<le> k" and "t \<le> 275"
  shows "\<forall>i<24. 0 \<le> hourly_production (calculate_daily_production self k t) ! i"
proof (intro allI impI)
  fix i :: nat
  assume i: "i < 24"
  have "0 \<le> temp_factor t" using assms(7) by (simp add: temp_factor_nonneg_iff)
  moreover have "0 \<le> daily_irradiance_wh k" using assms(6) by (simp add: daily_irradiance_wh_def)
  moreover have "0 \<le> profile ! i"
    using i profile_raw_sum_pos gauss_pos [of "int i"] by (simp add: profile_nth)
  moreover note tilt_factor_nonneg [of "tilt_angle self"]
  ultimately show "0 \<le> hourly_production (calculate_daily_production self k t) ! i"
    using assms(1,3) i by (simp add: hourly_nth)
qed

theorem hourly_nonneg_witness:
  "0 \<le> hourly_production
          (calculate_daily_production \<lparr>efficiency = 0.2, area_m2 = 2, tilt_angle = 30\<rparr> 5 40) ! 12"
  using hourly_nonneg [of "\<lparr>efficiency = 0.2, area_m2 = 2, tilt_angle = 30\<rparr>" 5 40, THEN spec, of 12]
  by simp

text \<open>
  C3 as stated, for every real temperature, fails: at 300 degrees the temperature
  factor is \<open>-0.1\<close> and the noon entry of a valid panel under positive irradiance is
  negative.
\<close>

theorem hourly_nonneg_hot_counterexample:
  "0 < (0.2::real) \<and> (0.2::real) \<le> 1 \<and> 0 < (2::real) \<and> 0 \<le> (30::real) \<and> (30::real) \<le> 90
   \<and> 0 \<le> (5::real)
   \<and> hourly_production
        (calculate_daily_production \<lparr>efficiency = 0.2, area_m2 = 2, tilt_angle = 30\<rparr> 5 300) ! 12 < 0"
proof -
  have "0 < sum_list profile_raw" by (rule profile_raw_sum_pos)
  then have "- 150 / sum_list profile_raw < 0" by simp
  then show ?thesis
    by (simp add: hourly_nth_gauss gauss_12 temp_factor_def tilt_factor_30 daily_irradiance_wh_def)
qed

text \<open>
  C4. For a valid panel and a non-negative irradiance, the total production does not
  increase when the temperature rises from any value of at least 25 degrees, and at
  every temperature of at most 25 degrees it is the total at 25 degrees.
\<close>

theorem temperature_monotone:
  assumes "0 < efficiency self" "efficiency self \<le> 1" "0 < area_m2 self"
    and "0 \<le> tilt_angle self" "tilt_angle self \<le> 90"
    and "0 \<le> k"
  shows "(\<forall>t1 t2. 25 \<le> t1 \<and> t1 \<le> t2 \<longrightarrow>
            total_production (calculate_daily_production self k t2)
              \<le> total_production (calculate_daily_production self k t1))
         \<and> (\<forall>t. t \<le> 25 \<longrightarrow>
              total_production (calculate_daily_production self k t)
                = total_production (calculate_daily_production self k 25))"
proof -
  have c: "0 \<le> daily_irradiance_wh k * area_m2 self * efficiency self"
    using assms(1,3,6) by (simp add: daily_irradiance_wh_def)
  have "total_production (calculate_daily_production self k t2)
          \<le> total_production (calculate_daily_production self k t1)" if "t1 \<le> t2" for t1 t2
  proof -
    have "temp_factor t2 \<le> temp_factor t1" using that by (rule temp_factor_antimono)
    with c have "daily_irradiance_wh k * area_m2 self * efficiency self * temp_factor t2
                  \<le> daily_irradiance_wh k * area_m2 self * efficiency self * temp_factor t1"
      by (rule mult_left_mono [rotated])
    then show ?thesis
      unfolding total_closed_form
      by (rule mult_right_mono) (rule tilt_factor_nonneg)
  qed
  moreover have "total_production (calculate_daily_production self k t)
                = total_production (calculate_daily_production self k 25)" if "t \<le> 25" for t
    using that by (simp add: total_closed_form temp_factor_cold)
  ultimately show ?thesis by blast
qed

theorem temperature_monotone_witness:
  "total_production (calculate_daily_production \<lparr>efficiency = 0.2, area_m2 = 2, tilt_angle = 30\<rparr> 5 40)
     \<le> total_production (calculate_daily_production \<lparr>efficiency = 0.2, area_m2 = 2, tilt_angle = 30\<rparr> 5 30)
   \<and> total_production (calculate_daily_production \<lparr>efficiency = 0.2, area_m2 = 2, tilt_angle = 30\<rparr> 5 10)
     = total_production (calculate_daily_production \<lparr>efficiency = 0.2, area_m2 = 2, tilt_angle = 30\<rparr> 5 25)"
proof -
  let ?c = "\<lparr>efficiency = 0.2, area_m2 = 2, tilt_angle = 30\<rparr>"
  have v: "0 < efficiency ?c" "efficiency ?c \<le> 1" "0 < area_m2 ?c"
    "0 \<le> tilt_angle ?c" "tilt_angle ?c \<le> 90" "(0::real) \<le> 5"
    by simp_all
  note m = temperature_monotone [OF v]
  have "total_production (calculate_daily_production ?c 5 40)
          \<le> total_production (calculate_daily_production ?c 5 30)"
    by (rule m [THEN conjunct1, rule_format]) simp
  moreover have "total_production (calculate_daily_production ?c 5 10)
          = total_production (calculate_daily_production ?c 5 25)"
    by (rule m [THEN conjunct2, rule_format]) simp
  ultimately show ?thesis by (rule conjI)
qed

text \<open>
  C5, as amended. For a valid panel, a positive daily irradiance and an ambient
  temperature of at most 275 degrees Celsius, no hourly entry exceeds the entry of
  hour 12.
\<close>

theorem noon_peak:
  assumes "0 < efficiency self" "efficiency self \<le> 1" "0 < area_m2 self"
    and "0 \<le> tilt_angle self" "tilt_angle self \<le> 90"
    and "0 < k" and "t \<le> 275"
  shows "\<forall>i<24. hourly_production (calculate_daily_production self k t) ! i
                  \<le> hourly_production (calculate_daily_production self k t) ! 12"
proof (intro allI impI)
  fix i :: nat
  assume i: "i < 24"
  have "0 \<le> temp_factor t" using assms(7) by (simp add: temp_factor_nonneg_iff)
  moreover have "0 \<le> daily_irradiance_wh k" using assms(6) by (simp add: daily_irradiance_wh_def)
  moreover note tilt_factor_nonneg [of "tilt_angle self"]
  ultimately have "0 \<le> daily_irradiance_wh k * area_m2 self * efficiency self * temp_factor t
       * tilt_factor (tilt_angle self) / sum_list profile_raw"
    using assms(1,3) profile_raw_sum_pos by simp
  then have "gauss (int i) * (daily_irradiance_wh k * area_m2 self * efficiency self * temp_factor t
       * tilt_factor (tilt_angle self) / sum_list profile_raw)
     \<le> 1 * (daily_irradiance_wh k * area_m2 self * efficiency self * temp_factor t
       * tilt_factor (tilt_angle self) / sum_list profile_raw)"
    by (intro mult_right_mono gauss_le_1)
  then show "hourly_production (calculate_daily_production self k t) ! i
                  \<le> hourly_production (calculate_daily_production self k t) ! 12"
    using i by (simp add: hourly_nth_gauss gauss_12)
qed

theorem noon_peak_witness:
  "hourly_production
      (calculate_daily_production \<lparr>efficiency = 0.2, area_m2 = 2, tilt_angle = 30\<rparr> 5 40) ! 7
   \<le> hourly_production
      (calculate_daily_production \<lparr>efficiency = 0.2, area_m2 = 2, tilt_angle = 30\<rparr> 5 40) ! 12"
  using noon_peak [of "\<lparr>efficiency = 0.2, area_m2 = 2, tilt_angle = 30\<rparr>" 5 40, THEN spec, of 7]
  by simp

text \<open>
  C5 as stated, with no bound on the temperature, fails: at 300 degrees every entry is
  negative and the noon entry, the largest in absolute value, is below the entry of
  hour 0.
\<close>

theorem noon_peak_hot_counterexample:
  "0 < (0.2::real) \<and> (0.2::real) \<le> 1 \<and> 0 < (2::real) \<and> 0 \<le> (30::real) \<and> (30::real) \<le> 90
   \<and> 0 < (5::real)
   \<and> hourly_production
        (calculate_daily_production \<lparr>efficiency = 0.2, area_m2 = 2, tilt_angle = 30\<rparr> 5 300) ! 12
      < hourly_production
        (calculate_daily_production \<lparr>efficiency = 0.2, area_m2 = 2, tilt_angle = 30\<rparr> 5 300) ! 0"
proof -
  let ?r = "calculate_daily_production \<lparr>efficiency = 0.2, area_m2 = 2, tilt_angle = 30\<rparr> 5 300"
  have s: "0 < sum_list profile_raw" by (rule profile_raw_sum_pos)
  have g: "gauss 0 < 1" by (simp add: gauss_def)
  have h12: "hourly_production ?r ! 12 = - 150 / sum_list profile_raw"
    by (simp add: hourly_nth_gauss gauss_12 temp_factor_def tilt_factor_30 daily_irradiance_wh_def)
  have h0: "hourly_production ?r ! 0 = gauss 0 * (- 150 / sum_list profile_raw)"
    by (simp add: hourly_nth_gauss temp_factor_def tilt_factor_30 daily_irradiance_wh_def)
  from s have "- 150 / sum_list profile_raw < 0" by simp
  with g have "1 * (- 150 / sum_list profile_raw) < gauss 0 * (- 150 / sum_list profile_raw)"
    by (rule mult_strict_right_mono_neg)
  with h12 h0 show ?thesis by simp
qed




text \<open>
  The strict increase is a property of the exact formula: over the real numbers the tilt
  factor is 0.5 at 0 degrees, 1 at 90 degrees and strictly increasing in between.
\<close>

theorem tilt_factor_ends_and_monotone:
  "tilt_factor 0 = 0.5 \<and> tilt_factor 90 = 1
   \<and> (\<forall>a b. 0 \<le> a \<and> a < b \<and> b \<le> 90 \<longrightarrow> tilt_factor a < tilt_factor b)"
  using tilt_factor_0 tilt_factor_90 tilt_factor_strict_mono by blast

theorem tilt_factor_ends_and_monotone_witness:
  "tilt_factor 30 < tilt_factor 60"
  using tilt_factor_ends_and_monotone by simp

text \<open>
  C10. The hourly profile is symmetric about noon: for every input and every \<open>k\<close>
  from 1 to 11, the entries of the hours \<open>12 - k\<close> and \<open>12 + k\<close> are equal.
\<close>

theorem profile_symmetric:
  "\<forall>k. 1 \<le> k \<and> k \<le> 11 \<longrightarrow>
     hourly_production (calculate_daily_production self d t) ! (12 - k)
       = hourly_production (calculate_daily_production self d t) ! (12 + k)"
proof (intro allI impI)
  fix k :: nat
  assume k: "1 \<le> k \<and> k \<le> 11"
  then have "int (12 - k) = 12 - int k" "int (12 + k) = 12 + int k" by simp_all
  with k show "hourly_production (calculate_daily_production self d t) ! (12 - k)
       = hourly_production (calculate_daily_production self d t) ! (12 + k)"
    by (simp add: hourly_nth_gauss gauss_sym)
qed

theorem profile_symmetric_witness:
  "hourly_production
      (calculate_daily_production \<lparr>efficiency = 0.2, area_m2 = 2, tilt_angle = 30\<rparr> 5 40) ! 9
   = hourly_production
      (calculate_daily_production \<lparr>efficiency = 0.2, area_m2 = 2, tilt_angle = 30\<rparr> 5 40) ! 15"
  using profile_symmetric [of "\<lparr>efficiency = 0.2, area_m2 = 2, tilt_angle = 30\<rparr>" 5 40, THEN spec, of 3]
  by simp

subsection \<open>The sizing computation\<close>

text \<open>
  C7. Sizing round trip: when the annual yield \<open>Y\<close> of one square metre (the estimator
  run with efficiency 1 and area 1) is positive, the required area for a target \<open>T\<close> is
  \<open>T / Y\<close>, and the estimator run again with the same irradiance, temperature and tilt,
  efficiency 1 and that area gives the annual output \<open>T\<close>.
\<close>

theorem sizing_round_trip:
  assumes "Y = base_output_per_m2 tilt ghi temp" and "0 < Y"
  shows "required_area T Y = Inr (T / Y)
         \<and> annual_kwh (calculate_daily_production
               \<lparr>efficiency = 1, area_m2 = T / Y, tilt_angle = tilt\<rparr> ghi temp) = T"
proof
  from assms(2) show "required_area T Y = Inr (T / Y)"
    by (simp add: required_area_def)
next
  have "annual_kwh (calculate_daily_production
          \<lparr>efficiency = 1, area_m2 = T / Y, tilt_angle = tilt\<rparr> ghi temp) = (T / Y) * Y"
    unfolding assms(1) base_output_per_m2_def annual_closed_form by simp
  also from assms(2) have "\<dots> = T" by simp
  finally show "annual_kwh (calculate_daily_production
          \<lparr>efficiency = 1, area_m2 = T / Y, tilt_angle = tilt\<rparr> ghi temp) = T" .
qed

theorem sizing_round_trip_witness:
  "required_area 8640 (base_output_per_m2 30 5 25) = Inr (8640 / base_output_per_m2 30 5 25)
   \<and> annual_kwh (calculate_daily_production
         \<lparr>efficiency = 1, area_m2 = 8640 / base_output_per_m2 30 5 25, tilt_angle = 30\<rparr> 5 25)
       = 8640"
proof (rule sizing_round_trip)
  show "base_output_per_m2 30 5 25 = base_output_per_m2 30 5 25" ..
  show "0 < base_output_per_m2 30 5 25" by (simp add: base_output_30_5_25)
qed

text \<open>
  C8. When the annual yield of one square metre is 0, the sizing computation stops with
  the message that the irradiance data returned 0 and computes no area; for every other
  yield it returns the quotient of the target and the yield.
\<close>

theorem zero_yield_reported:
  "required_area T 0 = Inl Irradiance_returned_0
   \<and> (Y \<noteq> 0 \<longrightarrow> required_area T Y = Inr (T / Y))
   \<and> (base_output_per_m2 tilt ghi temp = 0 \<longrightarrow>
        sizing ghi temp tilt monthly offset = Inl Irradiance_returned_0)
   \<and> (base_output_per_m2 tilt ghi temp \<noteq> 0 \<longrightarrow>
        sizing ghi temp tilt monthly offset
          = Inr (target_annual_kwh monthly offset / base_output_per_m2 tilt ghi temp))"
  by (simp add: required_area_def sizing_def)

theorem zero_yield_reported_witness:
  "sizing 0 25 30 900 80 = Inl Irradiance_returned_0
   \<and> sizing 5 25 30 900 80 = Inr (8640 / 1368.75)
   \<and> required_area 8640 1368.75 = Inr (8640 / 1368.75)"
proof -
  note z = zero_yield_reported [of 8640 "1368.75" 30 0 25 900 80]
  note p = zero_yield_reported [of 8640 "1368.75" 30 5 25 900 80]
  have "sizing 0 25 30 900 80 = Inl Irradiance_returned_0"
    by (rule z [THEN conjunct2, THEN conjunct2, THEN conjunct1, rule_format])
       (rule base_output_zero_irradiance)
  moreover have "sizing 5 25 30 900 80
      = Inr (target_annual_kwh 900 80 / base_output_per_m2 30 5 25)"
    by (rule p [THEN conjunct2, THEN conjunct2, THEN conjunct2, rule_format])
       (simp add: base_output_30_5_25)
  moreover have "required_area 8640 1368.75 = Inr (8640 / 1368.75)"
    by (rule p [THEN conjunct2, THEN conjunct1, rule_format]) simp
  ultimately show ?thesis
    by (simp add: base_output_30_5_25 target_annual_kwh_def)
qed

subsection \<open>The temperature source\<close>

text \<open>
  C9 says that \<open>fetch_tomorrow_temperature\<close> never raises and returns 25 on every
  failure, a failed geocoding included. The function raises in two cases. When the
  city is not found (the geocoder answers with an empty list), \<open>coords\<close> is
  \<open>None\<close> and \<open>coords['lat']\<close> raises \<open>TypeError\<close>. When the forecast answers
  200 with a body that is not JSON, \<open>response.json()\<close>, which stands before the
  \<open>try\<close>, raises.
\<close>

theorem fetch_tomorrow_temperature_raises:
  "fetch_tomorrow_temperature
     \<lparr>nominatim = (\<lambda>q. Inr \<lparr>status_code = 200, body = Some (JArr [])\<rparr>),
      solar_resource = (\<lambda>c. Inl RequestException),
      forecast = (\<lambda>c. Inr \<lparr>status_code = 200,
                              body = Some (JObj [(''timelines'', JObj [(''hourly'',
                                JArr [JObj [(''values'', JObj [(''temperature'', JNum 18)])]])])])\<rparr>),
      str_to_float = (\<lambda>s. None)\<rparr>
     ''Atlantis'' = Inl TypeError
   \<and> fetch_tomorrow_temperature
     \<lparr>nominatim = (\<lambda>q. Inr \<lparr>status_code = 200,
                              body = Some (JArr [JObj [(''lat'', JNum 40), (''lon'', JNum (- 74))]])\<rparr>),
      solar_resource = (\<lambda>c. Inl RequestException),
      forecast = (\<lambda>c. Inr \<lparr>status_code = 200, body = None\<rparr>),
      str_to_float = (\<lambda>s. None)\<rparr>
     ''New York'' = Inl JSONDecodeError"
  by (simp add: fetch_tomorrow_temperature_def get_coordinates_from_city_def first_coords_def
      bind_exc_def)

text \<open>
  What does hold: once the city is found and the forecast request returns a response,
  the function returns 25 for every status other than 200 and for every JSON body from
  which the temperature cannot be read, and the temperature read otherwise.
\<close>

theorem fetch_tomorrow_temperature_default:
  assumes "get_coordinates_from_city w location = Some c" and "forecast w c = Inr r"
  shows "(status_code r \<noteq> 200 \<longrightarrow> fetch_tomorrow_temperature w location = Inr 25)
       \<and> (\<forall>data e. status_code r = 200 \<and> body r = Some data \<and> hourly_temperature w data = Inl e
             \<longrightarrow> fetch_tomorrow_temperature w location = Inr 25)
       \<and> (\<forall>data t. status_code r = 200 \<and> body r = Some data \<and> hourly_temperature w data = Inr t
             \<longrightarrow> fetch_tomorrow_temperature w location = Inr t)"
  using assms by (simp add: fetch_tomorrow_temperature_def)

theorem fetch_tomorrow_temperature_default_witness:
  "fetch_tomorrow_temperature
     \<lparr>nominatim = (\<lambda>q. Inr \<lparr>status_code = 200,
                              body = Some (JArr [JObj [(''lat'', JNum 40), (''lon'', JNum (- 74))]])\<rparr>),
      solar_resource = (\<lambda>c. Inl RequestException),
      forecast = (\<lambda>c. Inr \<lparr>status_code = 503, body = None\<rparr>),
      str_to_float = (\<lambda>s. None)\<rparr>
     ''New York'' = Inr 25"
proof -
  let ?w = "\<lparr>nominatim = (\<lambda>q. Inr \<lparr>status_code = 200,
                              body = Some (JArr [JObj [(''lat'', JNum 40), (''lon'', JNum (- 74))]])\<rparr>),
      solar_resource = (\<lambda>c. Inl RequestException),
      forecast = (\<lambda>c. Inr \<lparr>status_code = 503, body = None\<rparr>),
      str_to_float = (\<lambda>s. None)\<rparr>"
  have g: "get_coordinates_from_city ?w ''New York'' = Some \<lparr>lat = 40, lon = - 74\<rparr>"
    by (simp add: get_coordinates_from_city_def first_coords_def bind_exc_def)
  have f: "forecast ?w \<lparr>lat = 40, lon = - 74\<rparr> = Inr \<lparr>status_code = 503, body = None\<rparr>"
    by simp
  show ?thesis
    by (rule fetch_tomorrow_temperature_default [OF g f, THEN conjunct1, rule_format]) simp
qed

text \<open>
  The irradiance source, in contrast, checks \<open>coords\<close> and reads the body inside its
  \<open>try\<close>: in both cases it returns \<open>None\<close>.
\<close>

theorem fetch_daily_irradiance_no_coords:
  "get_coordinates_from_city w location = None \<Longrightarrow> fetch_daily_irradiance w location = Inr None"
  by (simp add: fetch_daily_irradiance_def)

theorem fetch_daily_irradiance_no_coords_witness:
  "fetch_daily_irradiance
     \<lparr>nominatim = (\<lambda>q. Inr \<lparr>status_code = 200, body = Some (JArr [])\<rparr>),
      solar_resource = (\<lambda>c. Inl RequestException),
      forecast = (\<lambda>c. Inl RequestException),
      str_to_float = (\<lambda>s. None)\<rparr>
     ''Atlantis'' = Inr None"
  by (rule fetch_daily_irradiance_no_coords) (simp add: get_coordinates_from_city_def)

lemma fetch_daily_irradiance_bad_body:
  "get_coordinates_from_city w location = Some c \<Longrightarrow> solar_resource w c = Inr r \<Longrightarrow>
   status_code r = 200 \<Longrightarrow> body r = None \<Longrightarrow> fetch_daily_irradiance w location = Inr None"
  by (simp add: fetch_daily_irradiance_def)

end
